theory Spec2Isabelle
  imports Complex_Main
begin

section \<open>Python values, errors and arrays\<close>

text \<open>
  The development embeds \<^verbatim>\<open>obp/dataset/multiclass.py\<close>, class
  \<^verbatim>\<open>MultiClassToBanditReduction\<close>. Every \<^verbatim>\<open>raise\<close>, failed
  \<^verbatim>\<open>assert\<close>, out-of-range index and missing attribute of the source is a branch
  that returns \<open>Inl\<close> of an error. Python floats are read as real numbers (exact
  arithmetic; rounding is not modelled), Python ints as \<open>int\<close>.
\<close>

datatype error =
    ValueError string
  | IndexError
  | AttributeError string
  | AssertionError string
  | ZeroDivisionError

text \<open>A number as a caller may pass it: \<^verbatim>\<open>isinstance(v, float)\<close> tells the two apart.\<close>

datatype pynum = PyInt int | PyFloat real

fun is_float :: "pynum \<Rightarrow> bool" where
  "is_float (PyFloat _) = True"
| "is_float (PyInt _) = False"

fun num_val :: "pynum \<Rightarrow> real" where
  "num_val (PyFloat r) = r"
| "num_val (PyInt i) = real_of_int i"

text \<open>The result of \<^verbatim>\<open>ndarray.mean()\<close>: the mean of no element is \<^verbatim>\<open>nan\<close>.\<close>

datatype npfloat = Finite real | NaN

definition np_mean :: "real list \<Rightarrow> npfloat" where
  "np_mean vs = (if vs = [] then NaN else Finite (sum_list vs / real (length vs)))"

text \<open>
  An n-dimensional array handed in by a caller: its shape and its cells by index vector.
  Matrices the class builds itself are lists of rows.
\<close>

record ndarray =
  shape :: "nat list"
  cell :: "nat list \<Rightarrow> real"

datatype pyobj = Ndarray ndarray | NotNdarray

text \<open>
  Index \<open>j\<close> into an axis of size \<open>n\<close>, as numpy reads it: a negative index counts from
  the end, anything outside \<open>-n .. n-1\<close> raises \<^verbatim>\<open>IndexError\<close>.
\<close>

definition norm_index :: "nat \<Rightarrow> int \<Rightarrow> error + nat" where
  "norm_index n j =
     (if 0 \<le> j \<and> j < int n then Inr (nat j)
      else if - int n \<le> j \<and> j < 0 then Inr (nat (j + int n))
      else Inl IndexError)"

text \<open>
  \<^verbatim>\<open>a[np.arange(len(a)), idx] = v\<close>: in row \<open>i\<close> the cell \<open>idx[i]\<close> is set to \<open>v\<close>.
  Both call sites pass an index vector with one entry per row.
\<close>

fun assign_cells :: "real list list \<Rightarrow> int list \<Rightarrow> real \<Rightarrow> error + real list list" where
  "assign_cells [] [] v = Inr []"
| "assign_cells (r # rs) (j # js) v =
     (case norm_index (length r) j of
        Inl e \<Rightarrow> Inl e
      | Inr k \<Rightarrow>
          (case assign_cells rs js v of
             Inl e \<Rightarrow> Inl e
           | Inr rs' \<Rightarrow> Inr (r[k := v] # rs')))"
| "assign_cells _ _ v = Inl IndexError"

text \<open>\<^verbatim>\<open>a[np.arange(len(a)), idx]\<close>: from row \<open>i\<close> the cell \<open>idx[i]\<close>.\<close>

fun take_cells :: "real list list \<Rightarrow> int list \<Rightarrow> error + real list" where
  "take_cells [] [] = Inr []"
| "take_cells (r # rs) (j # js) =
     (case norm_index (length r) j of
        Inl e \<Rightarrow> Inl e
      | Inr k \<Rightarrow>
          (case take_cells rs js of
             Inl e \<Rightarrow> Inl e
           | Inr vs \<Rightarrow> Inr (r ! k # vs)))"
| "take_cells _ _ = Inl IndexError"

text \<open>\<^verbatim>\<open>np.zeros((n, k))\<close> and \<^verbatim>\<open>np.expand_dims(m, 2)\<close> of an \<open>n \<times> k\<close> matrix.\<close>

definition zeros :: "nat \<Rightarrow> nat \<Rightarrow> real list list" where
  "zeros n k = replicate n (replicate k 0)"

definition expand_dims :: "nat \<Rightarrow> nat \<Rightarrow> real list list \<Rightarrow> ndarray" where
  "expand_dims n k m = \<lparr> shape = [n, k, 1], cell = (\<lambda>ix. m ! (ix ! 0) ! (ix ! 1)) \<rparr>"

text \<open>
  \<^verbatim>\<open>a[np.arange(n), idx]\<close> on a 3-dimensional array: rows \<open>0..n-1\<close> of axis 0, the cell
  \<open>idx[i]\<close> of axis 1, and the whole of axis 2; the values are listed in row-major order.
\<close>

fun take_cells3 :: "ndarray \<Rightarrow> nat \<Rightarrow> int list \<Rightarrow> error + real list" where
  "take_cells3 a i [] = Inr []"
| "take_cells3 a i (j # js) =
     (case norm_index (shape a ! 1) j of
        Inl e \<Rightarrow> Inl e
      | Inr k \<Rightarrow>
          (case take_cells3 a (Suc i) js of
             Inl e \<Rightarrow> Inl e
           | Inr vs \<Rightarrow> Inr (map (\<lambda>l. cell a [i, k, l]) [0..<shape a ! 2] @ vs)))"

section \<open>Library operations the class calls\<close>

text \<open>
  scikit-learn, scipy and numpy.random are not part of the repository. They are modelled
  by their documented behaviour, or taken as parameters where the behaviour is a choice
  of the library (the fitted classifier, the random draws).
\<close>

text \<open>
  A classifier: whether \<^verbatim>\<open>is_classifier\<close> accepts it, and \<^verbatim>\<open>fit(X, y)\<close>, which
  gives the fitted \<^verbatim>\<open>predict\<close> for one feature row. \<^verbatim>\<open>clone\<close> copies the unfitted
  estimator, which is the value itself here.
\<close>

record classifier =
  is_classifier :: bool
  fit :: "real list list \<Rightarrow> int list \<Rightarrow> real list \<Rightarrow> int"

text \<open>
  numpy's random generators, over a generator state \<open>'g\<close>: seeding, one categorical draw
  from \<^verbatim>\<open>np.arange(len(p))\<close> with probabilities \<open>p\<close> (the drawn index and the advanced
  generator), and a shuffled \<^verbatim>\<open>range(n)\<close>.
\<close>

record 'g np_random =
  RandomState :: "int \<Rightarrow> 'g"
  choice :: "'g \<Rightarrow> real list \<Rightarrow> nat \<times> 'g"
  permutation :: "'g \<Rightarrow> nat \<Rightarrow> nat list"

text \<open>
  \<^verbatim>\<open>check_random_state(seed)\<close>: \<^verbatim>\<open>None\<close> is numpy's global generator (in state \<open>g\<close>
  when the call is made), an int seeds a fresh one by \<^verbatim>\<open>np.random.RandomState(seed)\<close>, which
  raises \<^verbatim>\<open>ValueError\<close> for a seed outside \<open>0 .. 2**32 - 1\<close>.
\<close>

definition check_random_state :: "'g np_random \<Rightarrow> int option \<Rightarrow> 'g \<Rightarrow> error + 'g" where
  "check_random_state np random_state g =
     (case random_state of
        None \<Rightarrow> Inr g
      | Some seed \<Rightarrow>
          if 0 \<le> seed \<and> seed < 2 ^ 32 then Inr (RandomState np seed)
          else Inl (ValueError ''Seed must be between 0 and 2**32 - 1''))"

text \<open>
  \<^verbatim>\<open>check_X_y(X, y, ensure_2d=True, multi_output=False)\<close>: at least one sample and one
  feature, rows of one length, as many labels as rows.
\<close>

definition check_X_y :: "real list list \<Rightarrow> int list \<Rightarrow> error + (real list list \<times> int list)" where
  "check_X_y Xa ya =
     (if Xa = [] then Inl (ValueError ''Found array with 0 sample(s)'')
      else if \<not> list_all (\<lambda>r. length r = length (hd Xa)) Xa
        then Inl (ValueError ''Expected 2D array'')
      else if hd Xa = [] then Inl (ValueError ''Found array with 0 feature(s)'')
      else if length ya \<noteq> length Xa
        then Inl (ValueError ''Found input variables with inconsistent numbers of samples'')
      else Inr (Xa, ya))"

text \<open>
  \<^verbatim>\<open>rankdata(a, "dense")\<close> as scipy computes it: sort, keep one of each run of equal
  values, and give every element the 1-based position of its value among those.
\<close>

definition rankdata_dense :: "int list \<Rightarrow> nat list" where
  "rankdata_dense a =
     (let uniq = remdups_adj (sort a)
      in map (\<lambda>v. Suc (length (takeWhile (\<lambda>u. u \<noteq> v) uniq))) a)"

text \<open>
  \<^verbatim>\<open>train_test_split\<close>'s sizes: an int \<^verbatim>\<open>test_size\<close> is a count in \<open>1..n-1\<close>, a float a
  share in (0,1) rounded up; the rest trains, and must not be empty.
\<close>

definition validate_shuffle_split :: "nat \<Rightarrow> pynum \<Rightarrow> error + (nat \<times> nat)" where
  "validate_shuffle_split n test_size =
     (case test_size of
        PyInt k \<Rightarrow>
          if k \<ge> int n \<or> k \<le> 0 then Inl (ValueError ''test_size'')
          else Inr (n - nat k, nat k)
      | PyFloat f \<Rightarrow>
          if f \<le> 0 \<or> f \<ge> 1 then Inl (ValueError ''test_size'')
          else (let n_test = nat \<lceil>f * real n\<rceil>
                in if n - n_test = 0 then Inl (ValueError ''train set will be empty'')
                   else Inr (n - n_test, n_test)))"

definition safe_indexing :: "'a list \<Rightarrow> nat list \<Rightarrow> 'a list" where
  "safe_indexing a ind = map (\<lambda>i. a ! i) ind"

section \<open>The dataset object\<close>

text \<open>
  The attributes \<^verbatim>\<open>split_train_eval\<close> assigns exist only after its first call; they are
  assigned together, so they are one optional group.
\<close>

record split_attrs =
  X_tr :: "real list list"
  X_ev :: "real list list"
  y_tr :: "int list"
  y_ev :: "int list"
  y_full_ev :: "real list list"
  n_rounds_ev :: nat

record dataset =
  self_X :: "real list list"
  self_y :: "int list"
  base_classifier_b :: classifier
  alpha_b :: pynum
  dataset_name :: "string option"
  y_full :: "real list list"
  split_attrs :: "split_attrs option"

record feedback =
  fb_n_actions :: nat
  fb_n_rounds :: nat
  fb_context :: "real list list"
  fb_action :: "int list"
  fb_reward :: "real list"
  fb_position :: "unit option"
  fb_pscore :: "real list"

definition len_list :: "dataset \<Rightarrow> nat" where
  "len_list ds = 1"

definition n_actions :: "dataset \<Rightarrow> nat" where
  "n_actions ds = length (remdups (self_y ds))"

definition n_rounds :: "dataset \<Rightarrow> nat" where
  "n_rounds ds = length (self_y ds)"

text \<open>Line 160: \<^verbatim>\<open>(rankdata(y, "dense") - 1).astype(int)\<close>.\<close>

definition reindex_action :: "int list \<Rightarrow> int list" where
  "reindex_action ya = map (\<lambda>r. int r - 1) (rankdata_dense ya)"

text \<open>
  The dataclass constructor followed by \<^verbatim>\<open>__post_init__\<close>. The one-hot matrix is indexed
  with the local \<^verbatim>\<open>y\<close> that \<^verbatim>\<open>check_X_y\<close> returned, as line 163 does.
\<close>

fun post_init ::
  "real list list \<Rightarrow> int list \<Rightarrow> classifier \<Rightarrow> pynum \<Rightarrow> string option \<Rightarrow> error + dataset" where
  "post_init Xa ya clf alpha name =
     (if \<not> is_classifier clf then Inl (ValueError ''base_classifier_b must be a classifier'')
      else if \<not> is_float alpha \<or> \<not> (0 \<le> num_val alpha \<and> num_val alpha < 1)
        then Inl (ValueError ''alpha_b must be a float in the [0,1) interval'')
      else
        (case check_X_y Xa ya of
           Inl e \<Rightarrow> Inl e
         | Inr (Xc, yc) \<Rightarrow>
             (let self0 = \<lparr> self_X = Xc, self_y = reindex_action yc, base_classifier_b = clf,
                            alpha_b = alpha, dataset_name = name, y_full = [],
                            split_attrs = None \<rparr>
              in case assign_cells (zeros (n_rounds self0) (n_actions self0)) yc 1 of
                   Inl e \<Rightarrow> Inl e
                 | Inr yf \<Rightarrow> Inr (self0 \<lparr> y_full := yf \<rparr>))))"

text \<open>
  \<^verbatim>\<open>split_train_eval\<close>: the object after the call, or the error that left it as it was.
\<close>

definition split_train_eval ::
  "'g np_random \<Rightarrow> dataset \<Rightarrow> pynum \<Rightarrow> int option \<Rightarrow> 'g \<Rightarrow> error + dataset" where
  "split_train_eval np ds eval_size random_state g =
     (case validate_shuffle_split (n_rounds ds) eval_size of
        Inl e \<Rightarrow> Inl e
      | Inr (n_train, n_test) \<Rightarrow>
          (case check_random_state np random_state g of
             Inl e \<Rightarrow> Inl e
           | Inr rng \<Rightarrow>
               (let perm = permutation np rng (n_rounds ds);
                    ind_test = take n_test perm;
                    ind_train = take n_train (drop n_test perm);
                    X_ev' = safe_indexing (self_X ds) ind_test
                in Inr (ds \<lparr> split_attrs := Some
                      \<lparr> X_tr = safe_indexing (self_X ds) ind_train,
                        X_ev = X_ev',
                        y_tr = safe_indexing (self_y ds) ind_train,
                        y_ev = safe_indexing (self_y ds) ind_test,
                        y_full_ev = safe_indexing (y_full ds) ind_test,
                        n_rounds_ev = length X_ev' \<rparr> \<rparr>))))"

text \<open>
  Lines 236-240 and 297-301, the same code for \<open>pi_b\<close> and \<open>pi_e\<close>: every cell is
  \<open>(1 - alpha) / n_actions\<close>, then in each row the predicted cell is overwritten.
\<close>

definition construct_policy :: "nat \<Rightarrow> nat \<Rightarrow> real \<Rightarrow> int list \<Rightarrow> error + real list list" where
  "construct_policy n_ev k alpha preds =
     (if k = 0 then Inl ZeroDivisionError
      else assign_cells (replicate n_ev (replicate k ((1 - alpha) / real k))) preds
             (alpha + (1 - alpha) / real k))"

text \<open>Lines 232-240: the behavior policy matrix of the current split.\<close>

definition behavior_policy :: "dataset \<Rightarrow> split_attrs \<Rightarrow> error + real list list" where
  "behavior_policy ds st =
     (let preds = map (fit (base_classifier_b ds) (X_tr st) (y_tr st)) (X_ev st)
      in construct_policy (n_rounds_ev st) (n_actions ds) (num_val (alpha_b ds)) preds)"

text \<open>Lines 242-246: one draw per row of \<open>pi_b\<close>, the generator threaded through.\<close>

fun sample_actions :: "'g np_random \<Rightarrow> 'g \<Rightarrow> real list list \<Rightarrow> int list" where
  "sample_actions np r [] = []"
| "sample_actions np r (p # ps) =
     (case choice np r p of (a, r') \<Rightarrow> int a # sample_actions np r' ps)"

text \<open>Lines 242-257: sampling, the revealed reward and the propensity.\<close>

definition sample_feedback ::
  "'g np_random \<Rightarrow> 'g \<Rightarrow> dataset \<Rightarrow> split_attrs \<Rightarrow> real list list \<Rightarrow> error + feedback" where
  "sample_feedback np rnd ds st pi_b =
     (let action = sample_actions np rnd pi_b
      in case take_cells (y_full_ev st) action of
           Inl e \<Rightarrow> Inl e
         | Inr reward \<Rightarrow>
             (case take_cells pi_b action of
                Inl e \<Rightarrow> Inl e
              | Inr pscore \<Rightarrow>
                  Inr \<lparr> fb_n_actions = n_actions ds, fb_n_rounds = n_rounds_ev st,
                        fb_context = X_ev st, fb_action = action, fb_reward = reward,
                        fb_position = None, fb_pscore = pscore \<rparr>))"

text \<open>
  \<^verbatim>\<open>obtain_batch_bandit_feedback\<close>. The seed is checked first (line 230); before a split,
  reading \<^verbatim>\<open>self.X_tr\<close> on line 233 then raises \<^verbatim>\<open>AttributeError\<close>.
\<close>

definition obtain_batch_bandit_feedback ::
  "'g np_random \<Rightarrow> dataset \<Rightarrow> int option \<Rightarrow> 'g \<Rightarrow> error + feedback" where
  "obtain_batch_bandit_feedback np ds random_state g =
     (case check_random_state np random_state g of
        Inl e \<Rightarrow> Inl e
      | Inr rnd \<Rightarrow>
          (case split_attrs ds of
             None \<Rightarrow> Inl (AttributeError ''X_tr'')
           | Some st \<Rightarrow>
               (case behavior_policy ds st of
                  Inl e \<Rightarrow> Inl e
                | Inr pi_b \<Rightarrow> sample_feedback np rnd ds st pi_b)))"

text \<open>\<^verbatim>\<open>obtain_action_dist_by_eval_policy\<close>.\<close>

fun obtain_action_dist_by_eval_policy ::
  "dataset \<Rightarrow> classifier option \<Rightarrow> pynum \<Rightarrow> error + ndarray" where
  "obtain_action_dist_by_eval_policy ds base_classifier_e alpha_e =
     (if \<not> is_float alpha_e \<or> \<not> (0 \<le> num_val alpha_e \<and> num_val alpha_e \<le> 1)
        then Inl (ValueError ''alpha_e must be a float in the [0,1] interval'')
      else
        (case (case base_classifier_e of
                 None \<Rightarrow> Inr (base_classifier_b ds)
               | Some c \<Rightarrow>
                   if is_classifier c then Inr c
                   else Inl (AssertionError ''base_classifier_e must be a classifier'')) of
           Inl e \<Rightarrow> Inl e
         | Inr base_clf_e \<Rightarrow>
             (case split_attrs ds of
                None \<Rightarrow> Inl (AttributeError ''X_tr'')
              | Some st \<Rightarrow>
                  (let preds = map (fit base_clf_e (X_tr st) (y_tr st)) (X_ev st)
                   in case construct_policy (n_rounds_ev st) (n_actions ds) (num_val alpha_e) preds of
                        Inl e \<Rightarrow> Inl e
                      | Inr pi_e \<Rightarrow> Inr (expand_dims (n_rounds_ev st) (n_actions ds) pi_e)))))"

text \<open>
  \<^verbatim>\<open>calc_ground_truth_policy_value\<close>: the two checks of lines 321-326, then the mean of
  \<^verbatim>\<open>action_dist[np.arange(n_rounds_ev), y_ev]\<close>.
\<close>

definition calc_ground_truth_policy_value :: "dataset \<Rightarrow> pyobj \<Rightarrow> error + npfloat" where
  "calc_ground_truth_policy_value ds action_dist =
     (case action_dist of
        NotNdarray \<Rightarrow> Inl (ValueError ''action_dist must be a 3-D np.ndarray'')
      | Ndarray a \<Rightarrow>
          if length (shape a) \<noteq> 3 then Inl (ValueError ''action_dist must be a 3-D np.ndarray'')
          else
            (case split_attrs ds of
               None \<Rightarrow> Inl (AttributeError ''n_rounds_ev'')
             | Some st \<Rightarrow>
                 if shape a ! 0 \<noteq> n_rounds_ev st
                   then Inl (ValueError ''the size of axis 0 of action_dist must be the same as the number of samples in the evaluation set'')
                 else
                   (case take_cells3 a 0 (y_ev st) of
                      Inl e \<Rightarrow> Inl e
                    | Inr vs \<Rightarrow> Inr (np_mean vs))))"

text \<open>
  A method call on the object: the outcome, and the object after the call.
  \<^verbatim>\<open>split_train_eval\<close> assigns the split attributes when it succeeds, and nothing when
  \<^verbatim>\<open>train_test_split\<close> raises. The bodies of \<^verbatim>\<open>obtain_batch_bandit_feedback\<close> (lines
  230-257) and \<^verbatim>\<open>calc_ground_truth_policy_value\<close> (lines 321-327) hold no assignment to
  an attribute of \<^verbatim>\<open>self\<close>, and fit only a clone of the classifier.
\<close>

definition call_split_train_eval ::
  "'g np_random \<Rightarrow> pynum \<Rightarrow> int option \<Rightarrow> 'g \<Rightarrow> dataset \<Rightarrow> (error + unit) \<times> dataset" where
  "call_split_train_eval np eval_size random_state g ds =
     (case split_train_eval np ds eval_size random_state g of
        Inl e \<Rightarrow> (Inl e, ds)
      | Inr ds' \<Rightarrow> (Inr (), ds'))"



section \<open>Notions of the specification\<close>

text \<open>
  Plain accuracy, as the specification words it: the fraction of rows whose predicted
  label equals the true label.
\<close>

definition accuracy :: "int list \<Rightarrow> int list \<Rightarrow> real" where
  "accuracy preds labels =
     real (length (filter (\<lambda>(p, t). p = t) (zip preds labels))) / real (length labels)"

text \<open>What \<^verbatim>\<open>permutation(n)\<close> promises: the numbers \<open>0 .. n-1\<close>, each once, in some order.\<close>

definition is_permutation :: "nat list \<Rightarrow> nat \<Rightarrow> bool" where
  "is_permutation p n = (sort p = [0..<n])"

section \<open>Concrete instances for evaluation\<close>

text \<open>
  A classifier that always predicts the first training label, and a generator whose state
  is a counter: draw \<open>r mod len(p)\<close>, shuffle to the identity order.
\<close>

definition example_clf :: classifier where
  "example_clf = \<lparr> is_classifier = True, fit = (\<lambda>Xt yt x. hd yt) \<rparr>"

definition example_np :: "nat np_random" where
  "example_np = \<lparr> RandomState = (\<lambda>seed. nat seed),
                   choice = (\<lambda>r p. (r mod length p, Suc r)),
                   permutation = (\<lambda>r n. [0..<n]) \<rparr>"

text \<open>Four rows with labels 0, 1, 1, 1, and the split that evaluates on the first two.\<close>

definition clean_dataset :: dataset where
  "clean_dataset = \<lparr> self_X = [[0], [1], [2], [3]], self_y = [0, 1, 1, 1],
      base_classifier_b = example_clf, alpha_b = PyFloat 0.8, dataset_name = None,
      y_full = [[1, 0], [0, 1], [0, 1], [0, 1]], split_attrs = None \<rparr>"

definition clean_attrs :: split_attrs where
  "clean_attrs = \<lparr> X_tr = [[2], [3]], X_ev = [[0], [1]], y_tr = [1, 1], y_ev = [0, 1],
       y_full_ev = [[1, 0], [0, 1]], n_rounds_ev = 2 \<rparr>"

definition clean_split :: dataset where
  "clean_split = clean_dataset \<lparr> split_attrs := Some clean_attrs \<rparr>"

text \<open>Three rows with the binary labels -1, +1, +1, and the split that evaluates on the first.\<close>

definition pm1_dataset :: dataset where
  "pm1_dataset = \<lparr> self_X = [[0], [1], [2]], self_y = [0, 1, 1],
      base_classifier_b = example_clf, alpha_b = PyFloat 0.8, dataset_name = None,
      y_full = [[0, 1], [0, 1], [0, 1]], split_attrs = None \<rparr>"

definition pm1_attrs :: split_attrs where
  "pm1_attrs = \<lparr> X_tr = [[1], [2]], X_ev = [[0]], y_tr = [1, 1], y_ev = [0],
       y_full_ev = [[0, 1]], n_rounds_ev = 1 \<rparr>"

definition pm1_split :: dataset where
  "pm1_split = pm1_dataset \<lparr> split_attrs := Some pm1_attrs \<rparr>"




declare post_init.simps [simp del]
declare obtain_action_dist_by_eval_policy.simps [simp del]

lemmas run_defs =
  post_init.simps check_X_y_def reindex_action_def rankdata_dense_def n_rounds_def
  n_actions_def zeros_def norm_index_def split_train_eval_def validate_shuffle_split_def
  check_random_state_def safe_indexing_def construct_policy_def behavior_policy_def
  sample_feedback_def obtain_batch_bandit_feedback_def obtain_action_dist_by_eval_policy.simps
  calc_ground_truth_policy_value_def np_mean_def expand_dims_def example_clf_def example_np_def
  Let_def

lemmas instance_defs =
  clean_dataset_def clean_attrs_def clean_split_def pm1_dataset_def pm1_attrs_def pm1_split_def

section \<open>Indexing\<close>

lemma norm_index_less: "norm_index n j = Inr k \<Longrightarrow> k < n"
  by (auto simp: norm_index_def split: if_splits)

lemma norm_index_nonneg: "0 \<le> j \<Longrightarrow> norm_index n j = Inr k \<Longrightarrow> k = nat j"
  by (auto simp: norm_index_def split: if_splits)

lemma norm_index_in_range: "0 \<le> j \<Longrightarrow> j < int n \<Longrightarrow> norm_index n j = Inr (nat j)"
  by (simp add: norm_index_def)

lemma assign_cells_length:
  "assign_cells a idx v = Inr a' \<Longrightarrow> length a' = length a \<and> length idx = length a"
  by (induction a idx v arbitrary: a' rule: assign_cells.induct)
     (auto split: sum.splits)

lemma assign_cells_nth:
  "assign_cells a idx v = Inr a' \<Longrightarrow> i < length a \<Longrightarrow>
   \<exists>k. norm_index (length (a ! i)) (idx ! i) = Inr k \<and> a' ! i = (a ! i)[k := v]"
proof (induction a idx v arbitrary: a' i rule: assign_cells.induct)
  case (2 r rs j js v)
  then show ?case by (cases i) (auto split: sum.splits)
qed auto

lemma assign_cells_in_range:
  "length idx = length a \<Longrightarrow>
   \<forall>i<length a. 0 \<le> idx ! i \<and> idx ! i < int (length (a ! i)) \<Longrightarrow>
   assign_cells a idx v = Inr (map (\<lambda>i. (a ! i)[nat (idx ! i) := v]) [0..<length a])"
proof (induction a idx v rule: assign_cells.induct)
  case (1 v)
  then show ?case by simp
next
  case (2 r rs j js v)
  from "2.prems" have h: "length js = length rs"
    "\<forall>i<length rs. 0 \<le> js ! i \<and> js ! i < int (length (rs ! i))"
    "0 \<le> j" "j < int (length r)" by force+
  have "map (\<lambda>i. ((r # rs) ! i)[nat ((j # js) ! i) := v]) [0..<length (r # rs)] =
        r[nat j := v] # map (\<lambda>i. (rs ! i)[nat (js ! i) := v]) [0..<length rs]"
    by (simp add: upt_conv_Cons map_Suc_upt [symmetric] del: upt_Suc)
  with "2.IH" h show ?case by (simp add: norm_index_in_range)
qed simp_all

lemma take_cells_length:
  "take_cells a idx = Inr vs \<Longrightarrow> length vs = length a \<and> length idx = length a"
  by (induction a idx arbitrary: vs rule: take_cells.induct)
     (auto split: sum.splits)

lemma take_cells_nth:
  "take_cells a idx = Inr vs \<Longrightarrow> i < length a \<Longrightarrow>
   \<exists>k. norm_index (length (a ! i)) (idx ! i) = Inr k \<and> vs ! i = a ! i ! k"
proof (induction a idx arbitrary: vs i rule: take_cells.induct)
  case (2 r rs j js)
  then show ?case by (cases i) (auto split: sum.splits)
qed auto

lemma take_cells3_in_range:
  "\<forall>j\<in>set js. 0 \<le> j \<and> j < int (shape a ! 1) \<Longrightarrow> shape a ! 2 = 1 \<Longrightarrow>
   take_cells3 a i js = Inr (map (\<lambda>t. cell a [i + t, nat (js ! t), 0]) [0..<length js])"
proof (induction js arbitrary: i)
  case Nil
  then show ?case by simp
next
  case (Cons j js)
  have "map (\<lambda>t. cell a [i + t, nat ((j # js) ! t), 0]) [0..<length (j # js)] =
        cell a [i, nat j, 0] # map (\<lambda>t. cell a [Suc i + t, nat (js ! t), 0]) [0..<length js]"
    by (simp add: upt_conv_Cons map_Suc_upt [symmetric] del: upt_Suc)
  with Cons show ?case by (simp add: norm_index_in_range)
qed


lemma sum_list_indicator:
  "sum_list (map (\<lambda>t. if P t then 1 else 0) ts) = real (length (filter P ts))"
  by (induction ts) simp_all

lemma zip_as_map_nth:
  "length xs = length ys \<Longrightarrow> zip xs ys = map (\<lambda>i. (xs ! i, ys ! i)) [0..<length ys]"
  by (rule nth_equalityI) simp_all

lemma accuracy_by_index:
  "length preds = length labels \<Longrightarrow>
   accuracy preds labels =
     real (length (filter (\<lambda>i. preds ! i = labels ! i) [0..<length labels])) / real (length labels)"
  by (simp add: accuracy_def zip_as_map_nth filter_map comp_def)

section \<open>Dense ranks\<close>

lemma takeWhile_neq_sorted:
  "sorted us \<Longrightarrow> distinct us \<Longrightarrow> v \<in> set us \<Longrightarrow>
   takeWhile (\<lambda>u. u \<noteq> v) us = filter (\<lambda>u. u < v) (us :: 'a::linorder list)"
proof (induction us)
  case Nil
  then show ?case by simp
next
  case (Cons u us)
  show ?case
  proof (cases "u = v")
    case True
    with Cons.prems have "\<forall>w \<in> set us. \<not> w < v" by auto
    then have "filter (\<lambda>w. w < v) us = []" by (simp add: filter_empty_conv)
    with True show ?thesis by simp
  next
    case False
    with Cons.prems have "v \<in> set us" "u < v" by auto
    with Cons show ?thesis by simp
  qed
qed

lemma distinct_remdups_adj_sorted:
  "sorted xs \<Longrightarrow> distinct (remdups_adj (xs :: 'a::linorder list))"
  by (induction xs rule: remdups_adj.induct) auto

lemma dense_rank_card:
  assumes "v \<in> set a"
  shows "length (takeWhile (\<lambda>u. u \<noteq> v) (remdups_adj (sort a))) = card {u \<in> set a. u < v}"
proof -
  let ?us = "remdups_adj (sort a)"
  have s: "sorted ?us" by simp
  have d: "distinct ?us" by (simp add: distinct_remdups_adj_sorted)
  have m: "set ?us = set a" by simp
  have "length (takeWhile (\<lambda>u. u \<noteq> v) ?us) = length (filter (\<lambda>u. u < v) ?us)"
    using takeWhile_neq_sorted [OF s d] assms m by simp
  also have "\<dots> = card {u \<in> set ?us. u < v}"
    using d by (simp add: distinct_length_filter Int_def conj_commute)
  finally show ?thesis using m by simp
qed

lemma reindex_action_nth:
  "i < length a \<Longrightarrow> reindex_action a ! i = int (card {u \<in> set a. u < a ! i})"
  by (simp add: reindex_action_def rankdata_dense_def dense_rank_card)

lemma length_reindex_action: "length (reindex_action a) = length a"
  by (simp add: reindex_action_def rankdata_dense_def)

lemma card_below_mono:
  assumes "v \<in> set a" "v < w"
  shows "card {u \<in> set a. u < v} < card {u \<in> set a. u < (w::int)}"
proof (rule psubset_card_mono)
  show "finite {u \<in> set a. u < w}" by simp
  show "{u \<in> set a. u < v} \<subset> {u \<in> set a. u < w}" using assms by auto
qed

lemma card_below_less:
  assumes "v \<in> set a"
  shows "card {u \<in> set a. u < (v::int)} < card (set a)"
proof (rule psubset_card_mono)
  show "finite (set a)" by simp
  show "{u \<in> set a. u < v} \<subset> set a" using assms by auto
qed

lemma card_below_inj: "inj_on (\<lambda>v. card {u \<in> set a. u < (v::int)}) (set a)"
proof (rule inj_onI)
  fix v w assume h: "v \<in> set a" "w \<in> set a"
    "card {u \<in> set a. u < v} = card {u \<in> set a. u < w}"
  show "v = w"
  proof (rule ccontr)
    assume "v \<noteq> w"
    then consider "v < w" | "w < v" by (meson linorder_neqE)
    then show False using card_below_mono h by (cases) fastforce+
  qed
qed

lemma card_below_image:
  "(\<lambda>v. card {u \<in> set a. u < (v::int)}) ` set a = {0..<card (set a)}"
proof (rule card_subset_eq)
  show "finite {0..<card (set a)}" by simp
  show "(\<lambda>v. card {u \<in> set a. u < v}) ` set a \<subseteq> {0..<card (set a)}"
    using card_below_less by auto
  show "card ((\<lambda>v. card {u \<in> set a. u < v}) ` set a) = card {0..<card (set a)}"
    by (simp add: card_image card_below_inj)
qed

lemma set_reindex_action: "set (reindex_action a) = int ` {0..<card (set a)}"
proof -
  have "reindex_action a = map (\<lambda>v. int (card {u \<in> set a. u < v})) a"
    by (rule nth_equalityI) (simp_all add: length_reindex_action reindex_action_nth)
  then have "set (reindex_action a) = int ` ((\<lambda>v. card {u \<in> set a. u < v}) ` set a)"
    by (simp add: image_image)
  then show ?thesis by (simp add: card_below_image)
qed

lemma reindex_action_less_iff:
  assumes "i < length a" "j < length a"
  shows "reindex_action a ! i < reindex_action a ! j \<longleftrightarrow> a ! i < a ! j"
proof -
  have m: "a ! i \<in> set a" "a ! j \<in> set a" using assms by simp_all
  show ?thesis
  proof (cases "a ! i < a ! j")
    case True
    then show ?thesis using card_below_mono [OF m(1) True] assms by (simp add: reindex_action_nth)
  next
    case False
    then have "a ! j = a ! i \<or> a ! j < a ! i" by linarith
    then have "card {u \<in> set a. u < a ! j} \<le> card {u \<in> set a. u < a ! i}"
      using card_below_mono [OF m(2)] by (auto simp: less_imp_le)
    with False show ?thesis using assms by (simp add: reindex_action_nth)
  qed
qed

lemma n_actions_reindex: "length (remdups (reindex_action a)) = card (set a)"
proof -
  have "length (remdups (reindex_action a)) = card (set (reindex_action a))"
    by (simp add: length_remdups_card_conv)
  also have "\<dots> = card (set a)"
    by (simp add: set_reindex_action card_image)
  finally show ?thesis .
qed

section \<open>What construction and splitting establish\<close>

lemma post_init_facts:
  assumes "post_init Xa ya clf alpha name = Inr ds"
  shows "self_y ds = reindex_action ya" "split_attrs ds = None" "ya \<noteq> []"
    "length (self_X ds) = length ya" "alpha_b ds = alpha" "base_classifier_b ds = clf"
    "is_float alpha" "0 \<le> num_val alpha" "num_val alpha < 1" "is_classifier clf"
  using assms
  by (auto simp: post_init.simps check_X_y_def Let_def split: if_splits sum.splits)

text \<open>
  Line 163 as it is: row \<open>i\<close> of the one-hot matrix has its 1 in the cell that the
  original label \<open>ya ! i\<close> addresses as a numpy index.
\<close>

lemma post_init_y_full:
  assumes c: "post_init Xa ya clf alpha name = Inr ds" and i: "i < length ya"
  shows "\<exists>k. norm_index (n_actions ds) (ya ! i) = Inr k \<and>
           y_full ds ! i = (replicate (n_actions ds) 0)[k := 1]"
proof -
  define self0 where "self0 = \<lparr> self_X = Xa, self_y = reindex_action ya,
    base_classifier_b = clf, alpha_b = alpha, dataset_name = name, y_full = [],
    split_attrs = None \<rparr>"
  from c obtain yf where
    a: "assign_cells (zeros (n_rounds self0) (n_actions self0)) ya 1 = Inr yf"
    and ds: "ds = self0 \<lparr> y_full := yf \<rparr>"
    by (auto simp: post_init.simps check_X_y_def Let_def self0_def split: if_splits sum.splits)
  have n: "n_rounds self0 = length ya" "n_actions ds = n_actions self0"
    by (simp_all add: n_rounds_def n_actions_def self0_def ds length_reindex_action)
  from assign_cells_nth [OF a, of i] i n ds show ?thesis
    by (auto simp: zeros_def)
qed

lemma validate_shuffle_split_facts:
  assumes "validate_shuffle_split n test_size = Inr (n_train, n_test)"
  shows "0 < n_test \<and> n_test < n \<and> n_train = n - n_test"
proof (cases test_size)
  case (PyInt k)
  with assms show ?thesis
    by (auto simp: validate_shuffle_split_def split: if_splits)
next
  case (PyFloat f)
  with assms have f: "0 < f" "f < 1" and nt: "n_test = nat \<lceil>f * real n\<rceil>"
    and ne: "n - n_test \<noteq> 0" and tr: "n_train = n - n_test"
    by (auto simp: validate_shuffle_split_def Let_def split: if_splits)
  from ne have n: "0 < n" by simp
  with f have "0 < f * real n" by simp
  then have "0 < \<lceil>f * real n\<rceil>" by simp
  with nt ne tr show ?thesis by simp
qed

lemma is_permutation_facts:
  assumes "is_permutation p n"
  shows "length p = n" "set p = {0..<n}"
proof -
  from assms have s: "sort p = [0..<n]" by (simp add: is_permutation_def)
  have "length (sort p) = length p" by simp
  with s show "length p = n" by simp
  have "set (sort p) = set p" by simp
  with s show "set p = {0..<n}" by simp
qed

lemma set_safe_indexing:
  "set ind \<subseteq> {0..<length a} \<Longrightarrow> set (safe_indexing a ind) \<subseteq> set a"
  by (auto simp: safe_indexing_def)

lemma split_train_eval_facts:
  assumes s: "split_train_eval np ds0 eval_size random_state g = Inr ds"
    and p: "\<forall>r. check_random_state np random_state g = Inr r \<longrightarrow>
              is_permutation (permutation np r (n_rounds ds0)) (n_rounds ds0)"
  shows "\<exists>st. split_attrs ds = Some st \<and> self_y ds = self_y ds0 \<and>
           base_classifier_b ds = base_classifier_b ds0 \<and> alpha_b ds = alpha_b ds0 \<and>
           0 < n_rounds_ev st \<and> length (X_ev st) = n_rounds_ev st \<and>
           length (y_ev st) = n_rounds_ev st \<and>
           set (y_ev st) \<subseteq> set (self_y ds0) \<and> set (y_tr st) \<subseteq> set (self_y ds0)"
proof -
  from s obtain n_train n_test r where
    v: "validate_shuffle_split (n_rounds ds0) eval_size = Inr (n_train, n_test)"
    and r: "check_random_state np random_state g = Inr r"
    by (auto simp: split_train_eval_def split: sum.splits)
  define perm where "perm = permutation np r (n_rounds ds0)"
  from validate_shuffle_split_facts [OF v]
  have nt: "0 < n_test" "n_test < n_rounds ds0" by simp_all
  from p r have "is_permutation perm (n_rounds ds0)" by (simp add: perm_def)
  from is_permutation_facts [OF this]
  have pl: "length perm = n_rounds ds0" and ps: "set perm = {0..<length (self_y ds0)}"
    by (simp_all add: n_rounds_def)
  have t1: "set (take n_test perm) \<subseteq> {0..<length (self_y ds0)}"
    using ps set_take_subset by fastforce
  have t2: "set (take n_train (drop n_test perm)) \<subseteq> {0..<length (self_y ds0)}"
    using ps set_take_subset set_drop_subset by fastforce
  define st where "st =
    \<lparr> X_tr = safe_indexing (self_X ds0) (take n_train (drop n_test perm)),
      X_ev = safe_indexing (self_X ds0) (take n_test perm),
      y_tr = safe_indexing (self_y ds0) (take n_train (drop n_test perm)),
      y_ev = safe_indexing (self_y ds0) (take n_test perm),
      y_full_ev = safe_indexing (y_full ds0) (take n_test perm),
      n_rounds_ev = length (safe_indexing (self_X ds0) (take n_test perm)) \<rparr>"
  from s v r have ds: "ds = ds0 \<lparr> split_attrs := Some st \<rparr>"
    by (simp add: split_train_eval_def Let_def perm_def st_def)
  have "length (take n_test perm) = n_test" using pl nt by simp
  then have n: "n_rounds_ev st = n_test" "length (X_ev st) = n_test" "length (y_ev st) = n_test"
    by (simp_all add: st_def safe_indexing_def)
  have "set (y_ev st) \<subseteq> set (self_y ds0)" "set (y_tr st) \<subseteq> set (self_y ds0)"
    using t1 t2 by (simp_all add: st_def set_safe_indexing)
  with ds n nt show ?thesis by simp
qed

lemma reachable_split_facts:
  assumes c: "post_init Xa ya clf alpha name = Inr ds0"
    and s: "split_train_eval np ds0 eval_size random_state g = Inr ds"
    and p: "\<forall>r. check_random_state np random_state g = Inr r \<longrightarrow>
              is_permutation (permutation np r (n_rounds ds0)) (n_rounds ds0)"
    and st: "split_attrs ds = Some st"
  shows "0 < n_rounds_ev st" "length (X_ev st) = n_rounds_ev st"
    "length (y_ev st) = n_rounds_ev st" "0 < n_actions ds"
    "\<forall>j\<in>set (y_ev st). 0 \<le> j \<and> j < int (n_actions ds)"
    "\<forall>j\<in>set (y_tr st). 0 \<le> j \<and> j < int (n_actions ds)"
proof -
  from post_init_facts [OF c] have y0: "self_y ds0 = reindex_action ya" and ne: "ya \<noteq> []"
    by simp_all
  from split_train_eval_facts [OF s p] st
  have sy: "self_y ds = self_y ds0"
    and f: "0 < n_rounds_ev st" "length (X_ev st) = n_rounds_ev st"
      "length (y_ev st) = n_rounds_ev st"
    and ev: "set (y_ev st) \<subseteq> set (self_y ds0)" and tr: "set (y_tr st) \<subseteq> set (self_y ds0)"
    by auto
  have na: "n_actions ds = card (set ya)"
    by (simp add: n_actions_def sy y0 n_actions_reindex)
  have rng: "set (self_y ds0) = {0..<int (n_actions ds)}"
    by (simp add: y0 na set_reindex_action image_int_atLeastLessThan)
  show "0 < n_rounds_ev st" "length (X_ev st) = n_rounds_ev st"
    "length (y_ev st) = n_rounds_ev st" by (rule f)+
  show "0 < n_actions ds" using ne by (simp add: na card_gt_0_iff)
  show "\<forall>j\<in>set (y_ev st). 0 \<le> j \<and> j < int (n_actions ds)" using ev rng by auto
  show "\<forall>j\<in>set (y_tr st). 0 \<le> j \<and> j < int (n_actions ds)" using tr rng by auto
qed

text \<open>The concrete instances are what the constructor and the split compute.\<close>

lemma clean_dataset_constructed:
  "post_init [[0], [1], [2], [3]] [0, 1, 1, 1] example_clf (PyFloat 0.8) None = Inr clean_dataset"
  by (simp add: run_defs clean_dataset_def)

lemma clean_split_made:
  "split_train_eval example_np clean_dataset (PyFloat 0.5) (Some 0) 0 = Inr clean_split"
  by (simp add: run_defs instance_defs)

lemma clean_permutation:
  "\<forall>r. check_random_state example_np (Some 0) 0 = Inr r \<longrightarrow>
     is_permutation (permutation example_np r (n_rounds clean_dataset)) (n_rounds clean_dataset)"
  by (simp add: is_permutation_def example_np_def n_rounds_def clean_dataset_def sorted_sort_id)

lemma clean_split_attrs: "split_attrs clean_split = Some clean_attrs"
  by (simp add: clean_split_def)

lemma pm1_dataset_constructed:
  "post_init [[0], [1], [2]] [- 1, 1, 1] example_clf (PyFloat 0.8) None = Inr pm1_dataset"
  by (simp add: run_defs pm1_dataset_def)

lemma pm1_split_made:
  "split_train_eval example_np pm1_dataset (PyInt 1) (Some 0) 0 = Inr pm1_split"
  by (simp add: run_defs instance_defs)

section \<open>The policy matrix\<close>

lemma construct_policy_length:
  "construct_policy n_ev k alpha preds = Inr pm \<Longrightarrow> length pm = n_ev"
  by (auto simp: construct_policy_def split: if_splits dest: assign_cells_length)


lemma construct_policy_deterministic:
  assumes l: "length preds = n_ev" and k: "0 < k"
    and r: "\<forall>i<n_ev. 0 \<le> preds ! i \<and> preds ! i < int k"
  shows "construct_policy n_ev k 1 preds =
           Inr (map (\<lambda>i. (replicate k 0)[nat (preds ! i) := 1]) [0..<n_ev])"
proof -
  have "assign_cells (replicate n_ev (replicate k 0)) preds 1 =
          Inr (map (\<lambda>i. (replicate n_ev (replicate k 0) ! i)[nat (preds ! i) := 1])
                 [0..<length (replicate n_ev (replicate k (0::real)))])"
    by (rule assign_cells_in_range) (use l r in simp_all)
  then show ?thesis using k by (simp add: construct_policy_def cong: map_cong)
qed



text \<open>Where the two methods get their matrix, and the interval their \<open>alpha\<close> lies in.\<close>

lemma behavior_policy_from_construct_policy:
  assumes "post_init Xa ya clf alpha name = Inr ds0"
    and "split_train_eval np ds0 eval_size random_state g = Inr ds"
  shows "0 \<le> num_val (alpha_b ds) \<and> num_val (alpha_b ds) < 1 \<and>
         behavior_policy ds st =
           construct_policy (n_rounds_ev st) (n_actions ds) (num_val (alpha_b ds))
             (map (fit (base_classifier_b ds) (X_tr st) (y_tr st)) (X_ev st))"
proof -
  from assms(2) have "alpha_b ds = alpha_b ds0"
    by (auto simp: split_train_eval_def Let_def split: sum.splits)
  with post_init_facts [OF assms(1)] show ?thesis
    by (simp add: behavior_policy_def)
qed


lemma sample_actions_length: "length (sample_actions np r ps) = length ps"
  by (induction ps arbitrary: r) (auto split: prod.splits)

lemma sample_actions_nonneg: "i < length ps \<Longrightarrow> 0 \<le> sample_actions np r ps ! i"
proof (induction ps arbitrary: r i)
  case Nil
  then show ?case by simp
next
  case (Cons p ps)
  then show ?case by (cases i) (auto split: prod.splits)
qed

lemma ground_truth_well_shaped:
  assumes st: "split_attrs ds = Some st"
    and n: "0 < n_rounds_ev st" "length (y_ev st) = n_rounds_ev st"
    and r: "\<forall>j\<in>set (y_ev st). 0 \<le> j \<and> j < int k"
    and sh: "shape a = [n_rounds_ev st, k, 1]"
  shows "calc_ground_truth_policy_value ds (Ndarray a) =
           Inr (Finite (sum_list (map (\<lambda>i. cell a [i, nat (y_ev st ! i), 0]) [0..<n_rounds_ev st])
                        / real (n_rounds_ev st)))"
proof -
  have "take_cells3 a 0 (y_ev st) =
          Inr (map (\<lambda>t. cell a [0 + t, nat (y_ev st ! t), 0]) [0..<length (y_ev st)])"
    by (rule take_cells3_in_range) (use r sh in simp_all)
  then show ?thesis
    using st n sh by (simp add: calc_ground_truth_policy_value_def np_mean_def)
qed

section \<open>The one-hot reward matrix\<close>

text \<open>
  C1. The claim: after construction, row \<open>i\<close> of the one-hot reward matrix has exactly one
  1, at the re-indexed label of sample \<open>i\<close>. The code on the labels -1, +1, +1: the
  re-indexed labels are 0, 1, 1, and every row of the matrix has its 1 in column 1, so row
  0 has it away from its re-indexed label 0 (the original label -1 is read as a numpy
  index, which counts from the end). On the labels 1, 2 the constructor raises
  \<^verbatim>\<open>IndexError\<close> instead of building the matrix.
\<close>

theorem one_hot_indexed_by_original_label:
  "post_init [[0], [1], [2]] [- 1, 1, 1] example_clf (PyFloat 0.8) None = Inr pm1_dataset \<and>
   self_y pm1_dataset = [0, 1, 1] \<and>
   y_full pm1_dataset = [[0, 1], [0, 1], [0, 1]] \<and>
   post_init [[0], [1]] [1, 2] example_clf (PyFloat 0.8) None = Inl IndexError"
  by (simp add: run_defs pm1_dataset_def)

section \<open>The revealed reward\<close>

text \<open>
  C2. The claim: in every sampled feedback, \<open>reward[i]\<close> is 1 exactly when \<open>action[i]\<close>
  is the true re-indexed label of evaluation row \<open>i\<close>. The code on the dataset with labels
  -1, +1, +1, evaluated on its first row (re-indexed label 0): with seed 0 the sampled
  action is 0, the true label, and the reward is 0; with seed 1 the sampled action is 1,
  not the true label, and the reward is 1.
\<close>

theorem reward_read_from_original_label:
  "post_init [[0], [1], [2]] [- 1, 1, 1] example_clf (PyFloat 0.8) None = Inr pm1_dataset \<and>
   split_train_eval example_np pm1_dataset (PyInt 1) (Some 0) 0 = Inr pm1_split \<and>
   split_attrs pm1_split = Some pm1_attrs \<and> y_ev pm1_attrs = [0] \<and>
   map_sum id (\<lambda>fb. (fb_action fb, fb_reward fb))
     (obtain_batch_bandit_feedback example_np pm1_split (Some 0) 0) = Inr ([0], [0]) \<and>
   map_sum id (\<lambda>fb. (fb_action fb, fb_reward fb))
     (obtain_batch_bandit_feedback example_np pm1_split (Some 1) 0) = Inr ([1], [1])"
  by (simp add: run_defs instance_defs)

section \<open>Rows of a synthesized policy\<close>



section \<open>The propensity score\<close>

text \<open>
  C4. In every sampled feedback, \<open>pscore[i]\<close> is the entry of the behavior policy matrix
  in row \<open>i\<close> at the sampled action: \<open>pscore[i] = pi_b[i, action[i]]\<close>, for every
  evaluation row \<open>i\<close>.
\<close>

theorem pscore_is_behavior_probability:
  assumes "obtain_batch_bandit_feedback np ds random_state g = Inr fb"
  shows "\<exists>st pi_b. split_attrs ds = Some st \<and> behavior_policy ds st = Inr pi_b \<and>
           fb_n_rounds fb = n_rounds_ev st \<and> length pi_b = fb_n_rounds fb \<and>
           length (fb_action fb) = fb_n_rounds fb \<and> length (fb_pscore fb) = fb_n_rounds fb \<and>
           (\<forall>i<fb_n_rounds fb.
              0 \<le> fb_action fb ! i \<and> fb_action fb ! i < int (length (pi_b ! i)) \<and>
              fb_pscore fb ! i = pi_b ! i ! nat (fb_action fb ! i))"
proof -
  from assms obtain rnd st pi_b where st: "split_attrs ds = Some st"
    and pb: "behavior_policy ds st = Inr pi_b"
    and sf: "sample_feedback np rnd ds st pi_b = Inr fb"
    by (auto simp: obtain_batch_bandit_feedback_def Let_def split: option.splits sum.splits)
  define action where "action = sample_actions np rnd pi_b"
  from sf obtain reward pscore where
    tc: "take_cells pi_b action = Inr pscore"
    and fb: "fb = \<lparr> fb_n_actions = n_actions ds, fb_n_rounds = n_rounds_ev st,
                    fb_context = X_ev st, fb_action = action, fb_reward = reward,
                    fb_position = None, fb_pscore = pscore \<rparr>"
    by (auto simp: sample_feedback_def Let_def action_def split: sum.splits)
  have len: "length pi_b = n_rounds_ev st"
    using pb by (auto simp: behavior_policy_def Let_def dest: construct_policy_length)
  have la: "length action = length pi_b" by (simp add: action_def sample_actions_length)
  have lp: "length pscore = length pi_b" using take_cells_length [OF tc] by simp
  have cells: "\<forall>i<n_rounds_ev st. 0 \<le> action ! i \<and> action ! i < int (length (pi_b ! i)) \<and>
                 pscore ! i = pi_b ! i ! nat (action ! i)"
  proof (intro allI impI)
    fix i assume i: "i < n_rounds_ev st"
    then have nn: "0 \<le> action ! i" by (simp add: action_def sample_actions_nonneg len)
    from take_cells_nth [OF tc, of i] i len
    obtain k where k: "norm_index (length (pi_b ! i)) (action ! i) = Inr k"
      "pscore ! i = pi_b ! i ! k" by auto
    from norm_index_nonneg [OF nn k(1)] norm_index_less [OF k(1)] k(2) nn
    show "0 \<le> action ! i \<and> action ! i < int (length (pi_b ! i)) \<and>
          pscore ! i = pi_b ! i ! nat (action ! i)" by auto
  qed
  from st pb fb len la lp cells show ?thesis by auto
qed

theorem pscore_is_behavior_probability_witness:
  "\<exists>fb. obtain_batch_bandit_feedback example_np clean_split (Some 0) 0 = Inr fb \<and>
        behavior_policy clean_split clean_attrs = Inr [[1 / 10, 9 / 10], [1 / 10, 9 / 10]] \<and>
        fb_action fb = [0, 1] \<and> fb_pscore fb = [1 / 10, 9 / 10]"
proof -
  have e: "obtain_batch_bandit_feedback example_np clean_split (Some 0) 0 =
             Inr \<lparr> fb_n_actions = 2, fb_n_rounds = 2, fb_context = [[0], [1]],
                   fb_action = [0, 1], fb_reward = [1, 1], fb_position = None,
                   fb_pscore = [1 / 10, 9 / 10] \<rparr>"
    by (simp add: run_defs instance_defs numeral_2_eq_2)
  have b: "behavior_policy clean_split clean_attrs = Inr [[1 / 10, 9 / 10], [1 / 10, 9 / 10]]"
    by (simp add: run_defs instance_defs numeral_2_eq_2)
  from pscore_is_behavior_probability [OF e] e b show ?thesis by simp
qed

section \<open>Label normalisation\<close>

text \<open>
  C5. For every label vector, the re-indexed labels (line 160) take exactly the values
  \<open>0 .. k-1\<close>, \<open>k\<close> the number of distinct original labels; the re-indexing is strictly
  monotone in the value of the original label, so equal labels get equal ranks and the
  order of appearance plays no part; and a dataset that was constructed holds these labels
  and counts \<open>k\<close> actions.
\<close>

theorem reindex_action_dense:
  "set (reindex_action ya) = {0..<int (card (set ya))} \<and>
   length (reindex_action ya) = length ya \<and>
   (\<forall>i<length ya. \<forall>j<length ya.
      (reindex_action ya ! i < reindex_action ya ! j \<longleftrightarrow> ya ! i < ya ! j) \<and>
      (reindex_action ya ! i = reindex_action ya ! j \<longleftrightarrow> ya ! i = ya ! j)) \<and>
   (post_init Xa ya clf alpha name = Inr ds \<longrightarrow>
      self_y ds = reindex_action ya \<and> n_actions ds = card (set ya))"
proof (intro conjI allI impI)
  show "set (reindex_action ya) = {0..<int (card (set ya))}"
    by (simp add: set_reindex_action image_int_atLeastLessThan)
  show "length (reindex_action ya) = length ya"
    by (rule length_reindex_action)
next
  fix i j assume "i < length ya" "j < length ya"
  then show "reindex_action ya ! i < reindex_action ya ! j \<longleftrightarrow> ya ! i < ya ! j"
    by (rule reindex_action_less_iff)
next
  fix i j assume h: "i < length ya" "j < length ya"
  have "\<not> reindex_action ya ! i < reindex_action ya ! j \<and>
        \<not> reindex_action ya ! j < reindex_action ya ! i \<longleftrightarrow>
        \<not> ya ! i < ya ! j \<and> \<not> ya ! j < ya ! i"
    using h by (simp add: reindex_action_less_iff)
  then show "reindex_action ya ! i = reindex_action ya ! j \<longleftrightarrow> ya ! i = ya ! j"
    by linarith
next
  assume c: "post_init Xa ya clf alpha name = Inr ds"
  then show "self_y ds = reindex_action ya" by (rule post_init_facts(1))
  then show "n_actions ds = card (set ya)" by (simp add: n_actions_def n_actions_reindex)
qed

theorem reindex_action_dense_witness:
  "\<exists>ds. post_init [[0], [1], [2]] [1, - 2, 1] example_clf (PyFloat 0.8) None = Inr ds \<and>
        self_y ds = [1, 0, 1] \<and> n_actions ds = 2 \<and>
        set (reindex_action [1, - 2, 1]) = {0..<2}"
proof -
  obtain ds where c: "post_init [[0], [1], [2]] [1, - 2, 1] example_clf (PyFloat 0.8) None = Inr ds"
    by (simp add: run_defs)
  have r: "reindex_action [1, - 2, 1] = [1, 0, 1]"
    by (simp add: reindex_action_def rankdata_dense_def)
  have k: "card (set [1, - 2, 1 :: int]) = 2" by (simp add: card_insert_if)
  show ?thesis
    using reindex_action_dense [of "[1, - 2, 1]" "[[0], [1], [2]]" example_clf "PyFloat 0.8" None ds]
      c r k by simp
qed

section \<open>Ground truth of the deterministic policy\<close>

text \<open>
  C6. For a dataset that was constructed and split, and a classifier whose predictions are
  labels it was trained on, the action distribution synthesized with \<open>alpha_e = 1.0\<close> is
  accepted by the ground-truth evaluation, and its value is the classifier's plain
  accuracy on the evaluation partition: the fraction of evaluation rows whose predicted
  label equals the true re-indexed label.
\<close>

theorem ground_truth_of_deterministic_policy:
  assumes c: "post_init Xa ya clf alpha name = Inr ds0"
    and s: "split_train_eval np ds0 eval_size random_state g = Inr ds"
    and p: "\<forall>r. check_random_state np random_state g = Inr r \<longrightarrow>
              is_permutation (permutation np r (n_rounds ds0)) (n_rounds ds0)"
    and st: "split_attrs ds = Some st"
    and e: "clf_e = (case base_classifier_e of None \<Rightarrow> base_classifier_b ds | Some c \<Rightarrow> c)"
    and ic: "is_classifier clf_e"
    and pr: "\<forall>x\<in>set (X_ev st). fit clf_e (X_tr st) (y_tr st) x \<in> set (y_tr st)"
  shows "\<exists>ad. obtain_action_dist_by_eval_policy ds base_classifier_e (PyFloat 1) = Inr ad \<and>
           calc_ground_truth_policy_value ds (Ndarray ad) =
             Inr (Finite (accuracy (map (fit clf_e (X_tr st) (y_tr st)) (X_ev st)) (y_ev st)))"
proof -
  define k where "k = n_actions ds"
  define preds where "preds = map (fit clf_e (X_tr st) (y_tr st)) (X_ev st)"
  define n where "n = n_rounds_ev st"
  from reachable_split_facts [OF c s p st]
  have n0: "0 < n" and lx: "length (X_ev st) = n" and ly: "length (y_ev st) = n"
    and k0: "0 < k"
    and ry: "\<forall>j\<in>set (y_ev st). 0 \<le> j \<and> j < int k"
    and rt: "\<forall>j\<in>set (y_tr st). 0 \<le> j \<and> j < int k"
    by (simp_all add: n_def k_def)
  have lp: "length preds = n" by (simp add: preds_def lx)
  have rp: "\<forall>i<n. 0 \<le> preds ! i \<and> preds ! i < int k"
  proof (intro allI impI)
    fix i assume "i < n"
    then have "preds ! i \<in> set (y_tr st)" using pr lx by (simp add: preds_def)
    with rt show "0 \<le> preds ! i \<and> preds ! i < int k" by auto
  qed
  define pm where "pm = map (\<lambda>i. (replicate k (0::real))[nat (preds ! i) := 1]) [0..<n]"
  have cp: "construct_policy n k 1 preds = Inr pm"
    unfolding pm_def by (rule construct_policy_deterministic [OF lp k0 rp])
  have ad: "obtain_action_dist_by_eval_policy ds base_classifier_e (PyFloat 1) =
              Inr (expand_dims n k pm)"
    using st e ic cp
    by (auto simp: obtain_action_dist_by_eval_policy.simps Let_def preds_def n_def k_def
        split: option.splits)
  have cellv: "\<forall>i<n. pm ! i ! nat (y_ev st ! i) = (if preds ! i = y_ev st ! i then 1 else 0)"
  proof (intro allI impI)
    fix i assume i: "i < n"
    then have "y_ev st ! i \<in> set (y_ev st)" using ly by simp
    with ry have y: "0 \<le> y_ev st ! i" "y_ev st ! i < int k" by auto
    from rp i have q: "0 \<le> preds ! i" "preds ! i < int k" by auto
    from y q have "nat (preds ! i) = nat (y_ev st ! i) \<longleftrightarrow> preds ! i = y_ev st ! i" by auto
    with i y q show "pm ! i ! nat (y_ev st ! i) = (if preds ! i = y_ev st ! i then 1 else 0)"
      by (simp add: pm_def nth_list_update)
  qed
  have m: "map (\<lambda>i. pm ! i ! nat (y_ev st ! i)) [0..<n] =
        map (\<lambda>i. if preds ! i = y_ev st ! i then 1 else 0) [0..<n]"
    using cellv by simp
  have "sum_list (map (\<lambda>i. pm ! i ! nat (y_ev st ! i)) [0..<n]) =
        sum_list (map (\<lambda>i. if preds ! i = y_ev st ! i then 1 else 0) [0..<n])"
    by (rule arg_cong [OF m])
  also have "\<dots> = real (length (filter (\<lambda>i. preds ! i = y_ev st ! i) [0..<n]))"
    by (rule sum_list_indicator)
  finally have "sum_list (map (\<lambda>i. pm ! i ! nat (y_ev st ! i)) [0..<n]) / real n =
        accuracy preds (y_ev st)"
    using lp ly by (simp add: accuracy_by_index)
  moreover have "calc_ground_truth_policy_value ds (Ndarray (expand_dims n k pm)) =
      Inr (Finite (sum_list (map (\<lambda>i. cell (expand_dims n k pm) [i, nat (y_ev st ! i), 0])
                               [0..<n]) / real n))"
    unfolding n_def
    by (rule ground_truth_well_shaped [OF st])
       (use n0 ly ry in \<open>simp_all add: n_def expand_dims_def\<close>)
  ultimately show ?thesis using ad by (simp add: preds_def expand_dims_def)
qed

theorem ground_truth_of_deterministic_policy_witness:
  "\<exists>ad. obtain_action_dist_by_eval_policy clean_split None (PyFloat 1) = Inr ad \<and>
        calc_ground_truth_policy_value clean_split (Ndarray ad) = Inr (Finite (1 / 2))"
proof -
  have pr: "\<forall>x\<in>set (X_ev clean_attrs).
              fit example_clf (X_tr clean_attrs) (y_tr clean_attrs) x \<in> set (y_tr clean_attrs)"
    by (simp add: example_clf_def clean_attrs_def)
  have e: "example_clf = (case None of None \<Rightarrow> base_classifier_b clean_split | Some c \<Rightarrow> c)"
    by (simp add: clean_split_def clean_dataset_def)
  have ic: "is_classifier example_clf" by (simp add: example_clf_def)
  have acc: "accuracy (map (fit example_clf (X_tr clean_attrs) (y_tr clean_attrs)) (X_ev clean_attrs))
               (y_ev clean_attrs) = 1 / 2"
    by (simp add: accuracy_def example_clf_def clean_attrs_def)
  from ground_truth_of_deterministic_policy
    [OF clean_dataset_constructed clean_split_made clean_permutation clean_split_attrs e ic pr]
  show ?thesis by (simp only: acc)
qed

section \<open>What the ground-truth evaluation validates\<close>




section \<open>Operations before a split\<close>




section \<open>Determinism given the seed\<close>

text \<open>
  C9. Two invocations of the feedback sampling with the same integer seed, on objects with
  the same behavior policy matrix and the same evaluation reward matrix, give the same
  actions, rewards and propensities row for row (or fail alike), whatever state numpy's
  global generator is in at either call.
\<close>

theorem sampling_deterministic_given_seed:
  assumes "split_attrs ds1 = Some st1" "split_attrs ds2 = Some st2"
    and "y_full_ev st1 = y_full_ev st2"
    and "behavior_policy ds1 st1 = behavior_policy ds2 st2"
  shows "map_sum id (\<lambda>fb. (fb_action fb, fb_reward fb, fb_pscore fb))
           (obtain_batch_bandit_feedback np ds1 (Some seed) g1) =
         map_sum id (\<lambda>fb. (fb_action fb, fb_reward fb, fb_pscore fb))
           (obtain_batch_bandit_feedback np ds2 (Some seed) g2)"
  using assms
  by (auto simp: obtain_batch_bandit_feedback_def sample_feedback_def check_random_state_def
      Let_def split: sum.splits)

theorem sampling_deterministic_given_seed_witness:
  "map_sum id (\<lambda>fb. (fb_action fb, fb_reward fb, fb_pscore fb))
     (obtain_batch_bandit_feedback example_np clean_split (Some 0) 0) =
   map_sum id (\<lambda>fb. (fb_action fb, fb_reward fb, fb_pscore fb))
     (obtain_batch_bandit_feedback example_np
        (clean_split \<lparr> dataset_name := Some ''digits'' \<rparr>) (Some 0) 7) \<and>
   map_sum id (\<lambda>fb. (fb_action fb, fb_reward fb, fb_pscore fb))
     (obtain_batch_bandit_feedback example_np clean_split (Some 0) 0) =
   Inr ([0, 1], [1, 1], [1 / 10, 9 / 10])"
proof -
  have a: "split_attrs (clean_split \<lparr> dataset_name := Some ''digits'' \<rparr>) = Some clean_attrs"
    by (simp add: clean_split_def)
  have b: "behavior_policy clean_split clean_attrs =
           behavior_policy (clean_split \<lparr> dataset_name := Some ''digits'' \<rparr>) clean_attrs"
    by (simp add: behavior_policy_def n_actions_def)
  have e: "map_sum id (\<lambda>fb. (fb_action fb, fb_reward fb, fb_pscore fb))
     (obtain_batch_bandit_feedback example_np clean_split (Some 0) 0) =
     Inr ([0, 1], [1, 1], [1 / 10, 9 / 10])"
    by (simp add: run_defs instance_defs numeral_2_eq_2)
  from sampling_deterministic_given_seed [OF clean_split_attrs a refl b, of example_np 0 0 7] e
  show ?thesis by simp
qed

text \<open>
  Without a seed the draw is numpy's global generator's: the same call in two states of
  that generator gives different feedback.
\<close>

lemma unseeded_sampling_reads_global_generator:
  "obtain_batch_bandit_feedback example_np clean_split None 0 \<noteq>
   obtain_batch_bandit_feedback example_np clean_split None 1"
  by (simp add: run_defs instance_defs numeral_2_eq_2)

section \<open>Mixing coefficients must be floats\<close>

text \<open>
  C10. An int given as \<open>alpha_b\<close> makes the constructor raise \<^verbatim>\<open>ValueError\<close>, and an int
  given as \<open>alpha_e\<close> makes the evaluation-policy synthesizer raise \<^verbatim>\<open>ValueError\<close>,
  whatever its value: so also for 0 and 1, which lie inside the permitted intervals.
\<close>

theorem alpha_int_rejected:
  "(\<exists>msg. post_init Xa ya clf (PyInt n) name = Inl (ValueError msg)) \<and>
   obtain_action_dist_by_eval_policy ds base_classifier_e (PyInt m) =
     Inl (ValueError ''alpha_e must be a float in the [0,1] interval'')"
  by (simp add: post_init.simps obtain_action_dist_by_eval_policy.simps)

theorem alpha_int_rejected_witness:
  "(\<exists>msg. post_init [[0], [1]] [0, 1] example_clf (PyInt 0) None = Inl (ValueError msg)) \<and>
   (\<forall>ds. obtain_action_dist_by_eval_policy ds None (PyInt 1) =
     Inl (ValueError ''alpha_e must be a float in the [0,1] interval''))"
  using alpha_int_rejected [of "[[0], [1]]" "[0, 1]" example_clf 0 None _ None 1] by simp

end
